theory Spec2Isabelle
  imports Complex_Main "HOL-Library.Word" "HOL-Library.Multiset"
begin

section \<open>Values of the source language\<close>

text \<open>
  A JavaScript string is a sequence of UTF-16 code units. \<open>lit\<close> embeds an ASCII literal
  of the source; \<open>fromCharCode\<close> is \<^verbatim>\<open>String.fromCharCode\<close> on a non-negative
  integer (the argument is reduced modulo \<open>2 ^ 16\<close>).

  A JavaScript \<^verbatim>\<open>number\<close> that carries a score, a weight, a count or a length on the
  page is modelled as a real number: the finite values, with exact arithmetic. Where the
  source would leave the finite numbers (a division by zero) the model returns \<open>None\<close>.
  Array indices and the workflow step are integers.
\<close>

type_synonym jsstring = "16 word list"

definition lit :: "string \<Rightarrow> jsstring" where
  "lit s = map of_char s"

definition fromCharCode :: "nat \<Rightarrow> jsstring" where
  "fromCharCode n = [of_nat n]"

text \<open>\<^verbatim>\<open>a || b\<close> on numbers: \<open>b\<close> when \<open>a\<close> is falsy, that is \<open>0\<close>.\<close>

definition num_or :: "real \<Rightarrow> real \<Rightarrow> real" where
  "num_or a b = (if a = 0 then b else a)"

text \<open>\<^verbatim>\<open>a / b\<close>: \<open>None\<close> stands for the non-finite results of a division by zero.\<close>

definition js_div :: "real \<Rightarrow> real \<Rightarrow> real option" where
  "js_div a b = (if b = 0 then None else Some (a / b))"

text \<open>
  \<^verbatim>\<open>xs.reduce(f)\<close> without an initial value: the first element starts the fold; on an
  empty array the source raises a TypeError (\<open>None\<close>).
\<close>

fun reduce1 :: "('a \<Rightarrow> 'a \<Rightarrow> 'a) \<Rightarrow> 'a list \<Rightarrow> 'a option" where
  "reduce1 f [] = None"
| "reduce1 f (x # xs) = Some (foldl f x xs)"

text \<open>\<^verbatim>\<open>xs.findIndex(p)\<close>: the first index whose element satisfies \<open>p\<close>, or \<open>-1\<close>.\<close>

fun findIndex_from :: "int \<Rightarrow> ('a \<Rightarrow> bool) \<Rightarrow> 'a list \<Rightarrow> int" where
  "findIndex_from i p [] = -1"
| "findIndex_from i p (x # xs) = (if p x then i else findIndex_from (i + 1) p xs)"

definition findIndex :: "('a \<Rightarrow> bool) \<Rightarrow> 'a list \<Rightarrow> int" where
  "findIndex p xs = findIndex_from 0 p xs"

section \<open>types.ts\<close>

datatype BloomCategory =
  Remembering | Understanding | Applying | Analyzing | Evaluating | Creating

text \<open>
  \<^verbatim>\<open>Record<BloomCategory, number>\<close>: an object with exactly the six category keys.
  \<open>BloomWeights_lit\<close> is the object literal
  \<^verbatim>\<open>{ Remembering: r, Understanding: u, Applying: a, Analyzing: n, Evaluating: e, Creating: c }\<close>,
  the only way the source builds such an object, so the keys are enumerated in that order.
\<close>

type_synonym BloomWeights = "BloomCategory \<Rightarrow> real"

fun BloomWeights_lit ::
  "real \<Rightarrow> real \<Rightarrow> real \<Rightarrow> real \<Rightarrow> real \<Rightarrow> real \<Rightarrow> BloomWeights" where
  "BloomWeights_lit r u a n e c Remembering = r"
| "BloomWeights_lit r u a n e c Understanding = u"
| "BloomWeights_lit r u a n e c Applying = a"
| "BloomWeights_lit r u a n e c Analyzing = n"
| "BloomWeights_lit r u a n e c Evaluating = e"
| "BloomWeights_lit r u a n e c Creating = c"

definition Object_keys :: "BloomWeights \<Rightarrow> BloomCategory list" where
  "Object_keys w = [Remembering, Understanding, Applying, Analyzing, Evaluating, Creating]"

definition Object_values :: "BloomWeights \<Rightarrow> real list" where
  "Object_values w = map w (Object_keys w)"

record DetailedScoreItem =
  question :: jsstring
  score :: BloomWeights


datatype QuestionStatus = pending | accepted | discarded

datatype QuestionType = QT_text | QT_TrueFalse | QT_MCQ

text \<open>\<^verbatim>\<open>answer?: string | boolean\<close>\<close>

datatype Answer = AnsString jsstring | AnsBoolean bool

text \<open>
  The fields \<^verbatim>\<open>id\<close> and \<^verbatim>\<open>text\<close> are \<open>qid\<close> and \<open>qtext\<close> here; an optional
  field that is absent is \<open>None\<close>.
\<close>

record GeneratedQuestion =
  qid :: nat
  qtext :: jsstring
  status :: QuestionStatus
  question_type :: QuestionType
  options :: "jsstring list option"
  answer :: "Answer option"


text \<open>
  An item of the Generate response. The declared union has the three tags
  \<^verbatim>\<open>'text'\<close>, \<^verbatim>\<open>'TrueFalse'\<close> and \<^verbatim>\<open>'MCQ'\<close>; the response is parsed JSON, so an
  item can carry any other tag (\<open>Api_other\<close>), which the mapper's \<^verbatim>\<open>default\<close> branch
  receives. \<open>Api_TrueFalse q a\<close> has \<^verbatim>\<open>questioninfo = {question: q, answer: a}\<close> and
  \<open>Api_MCQ q os a\<close> has \<^verbatim>\<open>questioninfo = {question: q, options: os, answer: a}\<close>.
\<close>

datatype ApiGeneratedQuestionItem =
  Api_text jsstring
| Api_TrueFalse jsstring bool
| Api_MCQ jsstring "jsstring list" jsstring
| Api_other jsstring

section \<open>PaperScorer.tsx\<close>

definition CATEGORIES :: "BloomCategory list" where
  "CATEGORIES = [Remembering, Understanding, Applying, Analyzing, Evaluating, Creating]"

text \<open>The position of a category in \<open>CATEGORIES\<close>.\<close>

fun category_index :: "BloomCategory \<Rightarrow> nat" where
  "category_index Remembering = 0"
| "category_index Understanding = 1"
| "category_index Applying = 2"
| "category_index Analyzing = 3"
| "category_index Evaluating = 4"
| "category_index Creating = 5"

subsection \<open>StackedBar\<close>

text \<open>
  \<^verbatim>\<open>const totalScore = Object.values(scores).reduce((a, b) => a + b, 0);\<close>
  \<^verbatim>\<open>if (maxScore === 0) maxScore = totalScore || 1;\<close>
\<close>

definition StackedBar_totalScore :: "BloomWeights \<Rightarrow> real" where
  "StackedBar_totalScore scores = foldl (\<lambda>a b. a + b) 0 (Object_values scores)"

definition StackedBar_maxScore :: "BloomWeights \<Rightarrow> real \<Rightarrow> real" where
  "StackedBar_maxScore scores maxScore =
     (if maxScore = 0 then num_or (StackedBar_totalScore scores) 1 else maxScore)"

text \<open>
  \<^verbatim>\<open>const percentage = maxScore > 0 ? (value / maxScore) * 100 : 0;\<close>
\<close>

definition percentage :: "BloomWeights \<Rightarrow> real \<Rightarrow> BloomCategory \<Rightarrow> real option" where
  "percentage scores maxScore category =
     (let m = StackedBar_maxScore scores maxScore;
          v = scores category
      in if m > 0 then map_option (\<lambda>q. q * 100) (js_div v m) else Some 0)"

text \<open>
  \<^verbatim>\<open>if (percentage < 0.1) return null;\<close>: the segments the bar draws, in the order of
  \<open>CATEGORIES\<close>, each with its width.
\<close>

definition StackedBar_segments ::
  "BloomWeights \<Rightarrow> real \<Rightarrow> (BloomCategory \<times> real) list" where
  "StackedBar_segments scores maxScore =
     concat (map (\<lambda>category.
        case percentage scores maxScore category of
          None \<Rightarrow> []
        | Some p \<Rightarrow> if p < 1 / 10 then [] else [(category, p)]) CATEGORIES)"

subsection \<open>DetailedScore\<close>

text \<open>
  \<^verbatim>\<open>Object.keys(item.score).reduce((a, b) => item.score[a] > item.score[b] ? a : b)\<close>
\<close>

definition dominantCategory :: "BloomWeights \<Rightarrow> BloomCategory option" where
  "dominantCategory sc =
     reduce1 (\<lambda>a b. if sc a > sc b then a else b) (Object_keys sc)"

text \<open>The basis the detailed view and the overall view pass to the bar.\<close>

definition caller_maxScore :: "BloomWeights \<Rightarrow> real" where
  "caller_maxScore sc = num_or (foldl (\<lambda>a b. a + b) 0 (Object_values sc)) 1"

subsection \<open>handleSubmit: mapping and aggregating the Score response\<close>




section \<open>QuestionGenerator\<close>

subsection \<open>State\<close>

text \<open>The browser's \<^verbatim>\<open>File\<close>: the fields the component reads.\<close>

record File =
  file_name :: jsstring
  file_type :: jsstring
  file_size :: nat

datatype QuestionLength = Short | Medium | Long

text \<open>\<^verbatim>\<open>{ text, trueFalse, mcq }\<close>\<close>

record NumQuestions =
  nq_text :: real
  nq_trueFalse :: real
  nq_mcq :: real

datatype ReviewFilter = RF_all | RF_only QuestionType

text \<open>The component's \<^verbatim>\<open>useState\<close> cells.\<close>

record QGState =
  step :: int
  uploadedFile :: "File option"
  userInput :: jsstring
  questionLength :: QuestionLength
  numQuestions :: NumQuestions
  bloomWeights :: BloomWeights
  isLoading :: bool
  error :: "jsstring option"
  generatedQuestions :: "GeneratedQuestion list"
  reviewFilter :: ReviewFilter
  isExportMenuOpen :: bool

definition initialState :: QGState where
  "initialState =
     \<lparr> step = 1, uploadedFile = None, userInput = [], questionLength = Medium,
       numQuestions = \<lparr> nq_text = 5, nq_trueFalse = 0, nq_mcq = 0 \<rparr>,
       bloomWeights = BloomWeights_lit 20 20 20 20 10 10,
       isLoading = False, error = None, generatedQuestions = [],
       reviewFilter = RF_all, isExportMenuOpen = False \<rparr>"

text \<open>
  FileUploader's \<^verbatim>\<open>handleFileChange\<close>: what it passes to \<^verbatim>\<open>onFileSelect\<close> for the
  selected file (\<open>None\<close> when nothing is selected). A file of another type, or of more
  than 10 MB, is refused.
\<close>

definition MAX_SIZE_BYTES :: nat where
  "MAX_SIZE_BYTES = 10 * 1024 * 1024"

definition handleFileChange :: "jsstring list \<Rightarrow> File option \<Rightarrow> File option" where
  "handleFileChange acceptedMimeTypes selectedFile =
     (case selectedFile of
        None \<Rightarrow> None
      | Some f \<Rightarrow>
          if file_type f \<notin> set acceptedMimeTypes then None
          else if file_size f > MAX_SIZE_BYTES then None
          else Some f)"

text \<open>
  \<^verbatim>\<open><FileUploader onFileSelect={setUploadedFile} />\<close>, with the uploader's default
  \<^verbatim>\<open>acceptedMimeTypes = ['application/pdf']\<close>.
\<close>

definition selectFile :: "File option \<Rightarrow> QGState \<Rightarrow> QGState" where
  "selectFile selectedFile s =
     s\<lparr> uploadedFile := handleFileChange [lit ''application/pdf''] selectedFile \<rparr>"

definition totalWeight :: "BloomWeights \<Rightarrow> real" where
  "totalWeight w = foldl (\<lambda>sum x. sum + x) 0 (Object_values w)"

definition totalNumQuestions :: "NumQuestions \<Rightarrow> real" where
  "totalNumQuestions n = foldl (\<lambda>sum count. sum + count) 0 [nq_text n, nq_trueFalse n, nq_mcq n]"

definition handleWeightChange :: "BloomCategory \<Rightarrow> real \<Rightarrow> QGState \<Rightarrow> QGState" where
  "handleWeightChange category v s = s\<lparr> bloomWeights := (bloomWeights s)(category := v) \<rparr>"

datatype Preset = balanced | high_order | recall

definition applyWeightPreset :: "Preset \<Rightarrow> QGState \<Rightarrow> QGState" where
  "applyWeightPreset preset s =
     (case preset of
        balanced \<Rightarrow> s\<lparr> bloomWeights := BloomWeights_lit 17 17 17 17 16 16 \<rparr>
      | high_order \<Rightarrow> s\<lparr> bloomWeights := BloomWeights_lit 10 10 15 25 25 15 \<rparr>
      | recall \<Rightarrow> s\<lparr> bloomWeights := BloomWeights_lit 30 30 15 10 10 5 \<rparr>)"

subsection \<open>The outside world of handleGenerate\<close>

text \<open>
  What a \<^verbatim>\<open>catch (e)\<close> receives: an \<^verbatim>\<open>Error\<close> with its message, or any other value.
\<close>

datatype Thrown = ThrownError jsstring | ThrownOther

record PayloadFile =
  filename :: jsstring
  content :: jsstring
  mimeType :: jsstring

record PayloadConfig =
  cfg_userInput :: jsstring
  cfg_questionLength :: QuestionLength
  cfg_numQuestions :: NumQuestions
  cfg_bloomWeights :: BloomWeights

record Payload =
  payload_file :: PayloadFile
  payload_config :: PayloadConfig

text \<open>
  The \<^verbatim>\<open>Response\<close> of \<^verbatim>\<open>fetch\<close>: \<^verbatim>\<open>response.text()\<close> and \<^verbatim>\<open>response.json()\<close> can
  themselves reject.
\<close>

record Response =
  ok :: bool
  statusText :: jsstring
  response_text :: "Thrown + jsstring"
  response_json :: "Thrown + ApiGeneratedQuestionItem list"

text \<open>
  The two awaited operations: reading and encoding the file, and the POST to the
  generation endpoint. Each either rejects (\<open>Inl\<close>) or resolves (\<open>Inr\<close>).
\<close>

record Env =
  fileToBase64 :: "File \<Rightarrow> Thrown + jsstring"
  fetch :: "Payload \<Rightarrow> Thrown + Response"

subsection \<open>handleGenerate\<close>

text \<open>
  The callback of \<^verbatim>\<open>data.map((q, index) => ...)\<close>: \<open>None\<close> is the \<^verbatim>\<open>null\<close> of the
  \<^verbatim>\<open>default\<close> branch.
\<close>

fun mapItem :: "ApiGeneratedQuestionItem \<Rightarrow> nat \<Rightarrow> GeneratedQuestion option" where
  "mapItem (Api_text info) index =
     Some \<lparr> qid = index, qtext = info, status = pending, question_type = QT_text,
            options = None, answer = None \<rparr>"
| "mapItem (Api_TrueFalse q a) index =
     Some \<lparr> qid = index, qtext = q, status = pending, question_type = QT_TrueFalse,
            options = None, answer = Some (AnsBoolean a) \<rparr>"
| "mapItem (Api_MCQ q os a) index =
     Some \<lparr> qid = index, qtext = q, status = pending, question_type = QT_MCQ,
            options = Some os, answer = Some (AnsString a) \<rparr>"
| "mapItem (Api_other tag) index = None"

text \<open>\<^verbatim>\<open>data.map(...).filter(q => q !== null)\<close>\<close>

definition mapResponse :: "ApiGeneratedQuestionItem list \<Rightarrow> GeneratedQuestion list" where
  "mapResponse data =
     map the (filter (\<lambda>q. q \<noteq> None)
       (map (\<lambda>(q, index). mapItem q index) (zip data [0..<length data])))"

text \<open>The request body built from the encoded file and the configuration.\<close>

definition payload_of :: "File \<Rightarrow> jsstring \<Rightarrow> QGState \<Rightarrow> Payload" where
  "payload_of f fileContentBase64 s =
     \<lparr> payload_file =
         \<lparr> filename = file_name f, content = fileContentBase64, mimeType = file_type f \<rparr>,
       payload_config =
         \<lparr> cfg_userInput = userInput s, cfg_questionLength = questionLength s,
           cfg_numQuestions = numQuestions s, cfg_bloomWeights = bloomWeights s \<rparr> \<rparr>"

text \<open>
  The \<^verbatim>\<open>try\<close> block: the questions it computes, or what it throws; with the requests it
  has sent to the endpoint.
\<close>

definition generate_try ::
  "Env \<Rightarrow> File \<Rightarrow> QGState \<Rightarrow> (Thrown + GeneratedQuestion list) \<times> Payload list" where
  "generate_try env f s =
     (case fileToBase64 env f of
        Inl e \<Rightarrow> (Inl e, [])
      | Inr fileContentBase64 \<Rightarrow>
          let payload = payload_of f fileContentBase64 s
          in (case fetch env payload of
                Inl e \<Rightarrow> (Inl e, [payload])
              | Inr response \<Rightarrow>
                  if \<not> ok response then
                    (case response_text response of
                       Inl e \<Rightarrow> (Inl e, [payload])
                     | Inr errorText \<Rightarrow>
                         (Inl (ThrownError
                            (if errorText = [] then lit ''Request failed: '' @ statusText response
                             else errorText)), [payload]))
                  else
                    (case response_json response of
                       Inl e \<Rightarrow> (Inl e, [payload])
                     | Inr data \<Rightarrow> (Inr (mapResponse data), [payload]))))"

text \<open>
  \<^verbatim>\<open>e instanceof Error ? e.message : "An unknown error occurred."\<close>
\<close>

fun errorMessage :: "Thrown \<Rightarrow> jsstring" where
  "errorMessage (ThrownError m) = m"
| "errorMessage ThrownOther = lit ''An unknown error occurred.''"

text \<open>
  The handler, run to completion against an environment: the state once every
  \<^verbatim>\<open>set...\<close> call has taken effect, and the requests sent.
\<close>

definition handleGenerate :: "Env \<Rightarrow> QGState \<Rightarrow> QGState \<times> Payload list" where
  "handleGenerate env s =
     (case uploadedFile s of
        None \<Rightarrow>
          (s\<lparr> error := Some (lit ''Please upload a file to generate questions from.'') \<rparr>, [])
      | Some f \<Rightarrow>
          if totalNumQuestions (numQuestions s) = 0 then
            (s\<lparr> error := Some (lit ''Please select at least one question to generate.'') \<rparr>, [])
          else
            let s1 = s\<lparr> isLoading := True, error := None, generatedQuestions := [] \<rparr>
            in (case generate_try env f s of
                  (Inr questions, reqs) \<Rightarrow>
                    (s1\<lparr> generatedQuestions := questions, step := 4, isLoading := False \<rparr>, reqs)
                | (Inl e, reqs) \<Rightarrow>
                    (s1\<lparr> error := Some (lit ''Failed to generate questions: '' @ errorMessage e),
                         isLoading := False \<rparr>, reqs)))"

definition updateQuestionStatus :: "nat \<Rightarrow> QuestionStatus \<Rightarrow> QGState \<Rightarrow> QGState" where
  "updateQuestionStatus i st s =
     s\<lparr> generatedQuestions :=
          map (\<lambda>q. if qid q = i then q\<lparr> status := st \<rparr> else q) (generatedQuestions s) \<rparr>"

definition acceptedQuestions :: "QGState \<Rightarrow> GeneratedQuestion list" where
  "acceptedQuestions s = filter (\<lambda>q. status q = accepted) (generatedQuestions s)"

subsection \<open>The footer's controls\<close>

text \<open>
  A control runs its handler when it is rendered and not disabled; otherwise a click
  changes nothing.

  Back: \<^verbatim>\<open>onClick={() => setStep(s => Math.max(1, s - 1))} disabled={step === 1 || isLoading}\<close>
\<close>

definition clickBack :: "QGState \<Rightarrow> QGState" where
  "clickBack s =
     (if step s = 1 \<or> isLoading s then s else s\<lparr> step := max 1 (step s - 1) \<rparr>)"

text \<open>
  Next, rendered when \<^verbatim>\<open>step < 3\<close>:
  \<^verbatim>\<open>onClick={() => setStep(s => s + 1)}\<close>
  \<^verbatim>\<open>disabled={(step === 1 && !uploadedFile) || (step === 2 && totalNumQuestions === 0)}\<close>
\<close>

definition next_disabled :: "QGState \<Rightarrow> bool" where
  "next_disabled s =
     ((step s = 1 \<and> uploadedFile s = None) \<or>
      (step s = 2 \<and> totalNumQuestions (numQuestions s) = 0))"

definition clickNext :: "QGState \<Rightarrow> QGState" where
  "clickNext s =
     (if step s < 3 \<and> \<not> next_disabled s then s\<lparr> step := step s + 1 \<rparr> else s)"

text \<open>
  Generate and Review, rendered when \<^verbatim>\<open>step === 3\<close>:
  \<^verbatim>\<open>onClick={handleGenerate} disabled={totalWeight === 0 || isLoading || totalNumQuestions === 0}\<close>
\<close>

definition generate_disabled :: "QGState \<Rightarrow> bool" where
  "generate_disabled s =
     (totalWeight (bloomWeights s) = 0 \<or> isLoading s \<or>
      totalNumQuestions (numQuestions s) = 0)"

definition clickGenerate :: "Env \<Rightarrow> QGState \<Rightarrow> QGState \<times> Payload list" where
  "clickGenerate env s =
     (if step s = 3 \<and> \<not> generate_disabled s then handleGenerate env s else (s, []))"


text \<open>
  Start Over, rendered when \<^verbatim>\<open>step === 4\<close>:
  \<^verbatim>\<open>onClick={() => { setStep(1); setUploadedFile(null); setGeneratedQuestions([]); }}\<close>
\<close>

definition clickStartOver :: "QGState \<Rightarrow> QGState" where
  "clickStartOver s =
     (if step s = 4 then s\<lparr> step := 1, uploadedFile := None, generatedQuestions := [] \<rparr>
      else s)"

text \<open>
  The footer's right-hand control on the way forward: Next on steps 1 and 2, Generate and
  Review on step 3 (on step 4 the footer offers Start Over instead).
\<close>

definition advance :: "Env \<Rightarrow> QGState \<Rightarrow> QGState \<times> Payload list" where
  "advance env s =
     (if step s < 3 then (clickNext s, [])
      else if step s = 3 then clickGenerate env s
      else (s, []))"

subsection \<open>Vocabulary of the statements\<close>

text \<open>An item whose tag is one of \<^verbatim>\<open>'text'\<close>, \<^verbatim>\<open>'TrueFalse'\<close>, \<^verbatim>\<open>'MCQ'\<close>.\<close>

fun recognised :: "ApiGeneratedQuestionItem \<Rightarrow> bool" where
  "recognised (Api_other tag) = False"
| "recognised item = True"

text \<open>
  The three sliders of step 2 have \<^verbatim>\<open>min={0}\<close>: the counts they produce are not
  negative. The response's scores are documented as non-negative.
\<close>

definition counts_nonneg :: "NumQuestions \<Rightarrow> bool" where
  "counts_nonneg n = (0 \<le> nq_text n \<and> 0 \<le> nq_trueFalse n \<and> 0 \<le> nq_mcq n)"

definition scores_nonneg :: "BloomWeights \<Rightarrow> bool" where
  "scores_nonneg sc =
     (0 \<le> sc Remembering \<and> 0 \<le> sc Understanding \<and> 0 \<le> sc Applying \<and>
      0 \<le> sc Analyzing \<and> 0 \<le> sc Evaluating \<and> 0 \<le> sc Creating)"

text \<open>The sum of the six entries of a vector.\<close>

definition sum6 :: "BloomWeights \<Rightarrow> real" where
  "sum6 w = w Remembering + w Understanding + w Applying + w Analyzing + w Evaluating + w Creating"

text \<open>
  The answer label in the words of the specification: the letter \<open>'a' + i\<close> for the index
  \<open>i\<close> of the first option equal to the answer, then \<open>") "\<close> and the option; the raw
  answer when no option matches.
\<close>

definition first_index :: "'a \<Rightarrow> 'a list \<Rightarrow> nat" where
  "first_index a xs = length (takeWhile (\<lambda>x. x \<noteq> a) xs)"

definition spec_answerLabel :: "jsstring list \<Rightarrow> jsstring \<Rightarrow> jsstring" where
  "spec_answerLabel opts a =
     (if a \<in> set opts then fromCharCode (97 + first_index a opts) @ lit '') '' @ a else a)"

subsection \<open>Rendering values into template literals\<close>

text \<open>The decimal digits of an index, as \<^verbatim>\<open>`${index + 1}`\<close> prints them.\<close>

fun number_toString :: "nat \<Rightarrow> jsstring" where
  "number_toString n =
     (if n < 10 then fromCharCode (48 + n)
      else number_toString (n div 10) @ fromCharCode (48 + n mod 10))"

text \<open>
  \<^verbatim>\<open>`${v}`\<close> for the optional field \<^verbatim>\<open>answer\<close>: a string prints as itself, a boolean as
  \<^verbatim>\<open>true\<close> or \<^verbatim>\<open>false\<close>, an absent field as \<^verbatim>\<open>undefined\<close>.
\<close>

fun Answer_toString :: "Answer \<Rightarrow> jsstring" where
  "Answer_toString (AnsString a) = a"
| "Answer_toString (AnsBoolean b) = (if b then lit ''true'' else lit ''false'')"

fun optAnswer_toString :: "Answer option \<Rightarrow> jsstring" where
  "optAnswer_toString None = lit ''undefined''"
| "optAnswer_toString (Some a) = Answer_toString a"

text \<open>\<^verbatim>\<open>opt === answerOption\<close> for a string \<open>opt\<close>: equal strings, never a boolean.\<close>

fun strict_eq :: "jsstring \<Rightarrow> Answer \<Rightarrow> bool" where
  "strict_eq opt (AnsString a) = (opt = a)"
| "strict_eq opt (AnsBoolean b) = False"

text \<open>\<^verbatim>\<open>xs.join(sep)\<close>\<close>

fun join :: "jsstring \<Rightarrow> jsstring list \<Rightarrow> jsstring" where
  "join sep [] = []"
| "join sep [x] = x"
| "join sep (x # y # ys) = x @ sep @ join sep (y # ys)"

subsection \<open>handleExportTXT\<close>

text \<open>
  The answer label of the text export:
  \<^verbatim>\<open>const answerIndex = q.options.findIndex(opt => opt === answerOption);\<close>
  \<^verbatim>\<open>const answerLabel = answerIndex !== -1 ? `${String.fromCharCode(97 + answerIndex)}) ${answerOption}` : answerOption;\<close>
\<close>

definition txt_answerLabel :: "jsstring list \<Rightarrow> Answer \<Rightarrow> jsstring" where
  "txt_answerLabel opts answerOption =
     (let answerIndex = findIndex (\<lambda>opt. strict_eq opt answerOption) opts
      in if answerIndex \<noteq> -1
         then fromCharCode (nat (97 + answerIndex)) @ lit '') '' @ Answer_toString answerOption
         else Answer_toString answerOption)"

definition txt_question :: "GeneratedQuestion \<Rightarrow> nat \<Rightarrow> jsstring" where
  "txt_question q index =
     (let questionContent = number_toString (index + 1) @ lit ''. '' @ qtext q
      in if question_type q = QT_TrueFalse then
           questionContent @ lit '' (True/False)\<newline>   Answer: '' @ optAnswer_toString (answer q)
         else
           (case (question_type q, options q) of
              (QT_MCQ, Some opts) \<Rightarrow>
                let optionsString =
                      join (lit ''\<newline>'')
                        (map (\<lambda>(opt, i). lit ''   '' @ fromCharCode (97 + i) @ lit '') '' @ opt)
                           (zip opts [0..<length opts]));
                    questionContent' = questionContent @ lit ''\<newline>'' @ optionsString
                in (case answer q of
                      None \<Rightarrow> questionContent'
                    | Some answerOption \<Rightarrow>
                        questionContent' @ lit ''\<newline>   Answer: '' @ txt_answerLabel opts answerOption)
            | _ \<Rightarrow> questionContent))"

text \<open>The content of the downloaded text file; nothing is exported for an empty set.\<close>

definition handleExportTXT :: "QGState \<Rightarrow> jsstring option" where
  "handleExportTXT s =
     (let acc = acceptedQuestions s
      in if length acc = 0 then None
         else Some (join (lit ''\<newline>\<newline>'')
                (map (\<lambda>(q, index). txt_question q index) (zip acc [0..<length acc]))))"

subsection \<open>handleExportPDF\<close>

text \<open>
  The part of the jsPDF document the export reads and writes: the number of pages, the
  current font (family, style, size), the text drawn so far (page, lines, x, y) and the
  vertical cursor \<^verbatim>\<open>yPos\<close> of the handler.
\<close>

datatype Font = Font string string real

type_synonym Draw = "nat \<times> jsstring list \<times> real \<times> real"

record PdfState =
  pages :: nat
  font :: Font
  drawn :: "Draw list"
  yPos :: real

text \<open>
  What the library supplies: the page size of \<^verbatim>\<open>doc.internal.pageSize\<close> and the line
  breaking of \<^verbatim>\<open>doc.splitTextToSize\<close>, which depends on the current font.
\<close>

record JsPdf =
  pageHeight :: real
  pageWidth :: real
  splitTextToSize :: "Font \<Rightarrow> jsstring \<Rightarrow> real \<Rightarrow> jsstring list"

definition addPage :: "PdfState \<Rightarrow> PdfState" where
  "addPage st = st\<lparr> pages := pages st + 1 \<rparr>"

definition setFont :: "string \<Rightarrow> string \<Rightarrow> PdfState \<Rightarrow> PdfState" where
  "setFont fam sty st = (case font st of Font _ _ sz \<Rightarrow> st\<lparr> font := Font fam sty sz \<rparr>)"

definition setFontSize :: "real \<Rightarrow> PdfState \<Rightarrow> PdfState" where
  "setFontSize sz st = (case font st of Font fam sty _ \<Rightarrow> st\<lparr> font := Font fam sty sz \<rparr>)"

text \<open>\<^verbatim>\<open>doc.text(lines, x, yPos)\<close> on the current (last) page.\<close>

definition drawText :: "jsstring list \<Rightarrow> real \<Rightarrow> PdfState \<Rightarrow> PdfState" where
  "drawText ls x st = st\<lparr> drawn := drawn st @ [(pages st, ls, x, yPos st)] \<rparr>"

text \<open>
  The closure \<^verbatim>\<open>checkPageBreak\<close>, with the variables it captures as parameters:
  \<^verbatim>\<open>if (yPos + neededHeight > pageHeight - margin) { doc.addPage(); yPos = margin; }\<close>
\<close>

definition checkPageBreak :: "real \<Rightarrow> real \<Rightarrow> real \<Rightarrow> PdfState \<Rightarrow> PdfState" where
  "checkPageBreak margin pgHeight neededHeight st =
     (if yPos st + neededHeight > pgHeight - margin
      then (addPage st)\<lparr> yPos := margin \<rparr>
      else st)"

definition margin :: real where
  "margin = 15"

text \<open>One wrapped block: check for a page break, draw, move the cursor down.\<close>

definition pdf_block ::
  "JsPdf \<Rightarrow> jsstring \<Rightarrow> real \<Rightarrow> real \<Rightarrow> real \<Rightarrow> PdfState \<Rightarrow> PdfState" where
  "pdf_block lib txt width x lineHeight st =
     (let ls = splitTextToSize lib (font st) txt width;
          st1 = checkPageBreak margin (pageHeight lib) (real (length ls) * lineHeight) st;
          st2 = drawText ls x st1
      in st2\<lparr> yPos := yPos st2 + real (length ls) * lineHeight \<rparr>)"

text \<open>The answer label of the paginated export, written out again in the source.\<close>

definition pdf_answerLabel :: "jsstring list \<Rightarrow> Answer \<Rightarrow> jsstring" where
  "pdf_answerLabel opts answerOption =
     (let answerIndex = findIndex (\<lambda>opt. strict_eq opt answerOption) opts
      in if answerIndex \<noteq> -1
         then fromCharCode (nat (97 + answerIndex)) @ lit '') '' @ Answer_toString answerOption
         else Answer_toString answerOption)"

definition pdf_answerString :: "GeneratedQuestion \<Rightarrow> Answer \<Rightarrow> jsstring" where
  "pdf_answerString q a =
     (if question_type q = QT_TrueFalse then lit ''Answer: '' @ Answer_toString a
      else (case (question_type q, options q) of
              (QT_MCQ, Some opts) \<Rightarrow> lit ''Answer: '' @ pdf_answerLabel opts a
            | _ \<Rightarrow> []))"

text \<open>The body of \<^verbatim>\<open>acceptedQuestions.forEach((q, index) => ...)\<close>.\<close>

definition pdf_question :: "JsPdf \<Rightarrow> PdfState \<Rightarrow> GeneratedQuestion \<times> nat \<Rightarrow> PdfState" where
  "pdf_question lib st0 qi =
     (case qi of (q, index) \<Rightarrow>
      let st1 = setFontSize 12 (setFont ''helvetica'' ''normal'' st0);
          questionText = number_toString (index + 1) @ lit ''. '' @ qtext q @
             (if question_type q = QT_TrueFalse then lit '' (True/False)'' else []);
          st2 = pdf_block lib questionText (pageWidth lib - margin * 2) margin 7 st1;
          st3 = (case (question_type q, options q) of
                   (QT_MCQ, Some opts) \<Rightarrow>
                     foldl (\<lambda>st (opt, i).
                              pdf_block lib (fromCharCode (97 + i) @ lit '')'' @ lit '' '' @ opt)
                                (pageWidth lib - margin * 2 - 8) (margin + 8) 7 st)
                       (setFont ''courier'' ''normal'' (st2\<lparr> yPos := yPos st2 + 2 \<rparr>))
                       (zip opts [0..<length opts])
                 | _ \<Rightarrow> st2);
          st4 = (case answer q of
                   None \<Rightarrow> st3
                 | Some a \<Rightarrow>
                     let answerString = pdf_answerString q a
                     in if answerString = [] then st3
                        else pdf_block lib answerString (pageWidth lib - margin * 2 - 8)
                               (margin + 4) 6
                               (setFontSize 11 (setFont ''helvetica'' ''bold''
                                  (st3\<lparr> yPos := yPos st3 + 3 \<rparr>))))
      in st4\<lparr> yPos := yPos st4 + 10 \<rparr>)"

text \<open>
  The document that is saved, from a fresh one-page document \<open>doc0\<close> of the library;
  nothing is exported for an empty set.
\<close>

definition handleExportPDF :: "JsPdf \<Rightarrow> Font \<Rightarrow> QGState \<Rightarrow> PdfState option" where
  "handleExportPDF lib font0 s =
     (let acc = acceptedQuestions s
      in if length acc = 0 then None
         else
           let st0 = \<lparr> pages = 1, font = font0, drawn = [], yPos = margin \<rparr>;
               st1 = setFontSize 18 (setFont ''helvetica'' ''bold'' st0);
               st2 = checkPageBreak margin (pageHeight lib) 20 st1;
               st3 = drawText [lit ''BloomSphere Generated Questions''] (pageWidth lib / 2) st2;
               st4 = st3\<lparr> yPos := yPos st3 + 15 \<rparr>
           in Some (foldl (pdf_question lib) st4 (zip acc [0..<length acc])))"

section \<open>Example inputs\<close>



text \<open>A PDF upload and two behaviours of the outside world.\<close>

definition file_example :: File where
  "file_example =
     \<lparr> file_name = lit ''notes.pdf'', file_type = lit ''application/pdf'', file_size = 52000 \<rparr>"

definition env_network_down :: Env where
  "env_network_down =
     \<lparr> fileToBase64 = (\<lambda>f. Inr (lit ''JVBERi0='')),
       fetch = (\<lambda>p. Inl (ThrownError (lit ''Failed to fetch''))) \<rparr>"

definition env_responding :: "ApiGeneratedQuestionItem list \<Rightarrow> Env" where
  "env_responding data =
     \<lparr> fileToBase64 = (\<lambda>f. Inr (lit ''JVBERi0='')),
       fetch = (\<lambda>p. Inr \<lparr> ok = True, statusText = lit ''OK'',
                          response_text = Inr [], response_json = Inr data \<rparr>) \<rparr>"

text \<open>Generate responses: one with an unknown tag in front, one with known tags only.\<close>

definition response_with_gap :: "ApiGeneratedQuestionItem list" where
  "response_with_gap = [Api_other (lit ''essay''), Api_text (lit ''Define osmosis.'')]"

definition response_all_known :: "ApiGeneratedQuestionItem list" where
  "response_all_known =
     [Api_text (lit ''Define osmosis.''), Api_TrueFalse (lit ''Water is wet.'') True]"

text \<open>Workflow states: on the review step with one question held, and on the weights step.\<close>

definition question_example :: GeneratedQuestion where
  "question_example = \<lparr> qid = 0, qtext = lit ''What is a cell?'', status = accepted,
     question_type = QT_text, options = None, answer = None \<rparr>"

definition review_state :: QGState where
  "review_state = initialState \<lparr> step := 4, uploadedFile := Some file_example,
     generatedQuestions := [question_example] \<rparr>"

definition weights_state :: QGState where
  "weights_state = initialState \<lparr> step := 3, uploadedFile := Some file_example \<rparr>"



definition configure_state_zero :: QGState where
  "configure_state_zero = initialState \<lparr> step := 2, uploadedFile := Some file_example,
     numQuestions := \<lparr> nq_text = 0, nq_trueFalse = 0, nq_mcq = 0 \<rparr> \<rparr>"

text \<open>An accepted multiple-choice question, and an A4 document whose blocks never wrap.\<close>

definition mcq_example :: GeneratedQuestion where
  "mcq_example = \<lparr> qid = 0, qtext = lit ''Capital of France?'', status = accepted,
     question_type = QT_MCQ, options = Some [lit ''Paris'', lit ''Lyon'', lit ''Nice''],
     answer = Some (AnsString (lit ''Lyon'')) \<rparr>"

definition export_state :: QGState where
  "export_state = initialState \<lparr> step := 4, uploadedFile := Some file_example,
     generatedQuestions := [mcq_example] \<rparr>"

definition a4_one_line :: JsPdf where
  "a4_one_line = \<lparr> pageHeight = 297, pageWidth = 210, splitTextToSize = (\<lambda>f t w. [t]) \<rparr>"

text \<open>The cursor right after the title block of the paginated export.\<close>

definition page_after_title :: PdfState where
  "page_after_title = \<lparr> pages = 1, font = Font ''helvetica'' ''bold'' 18, drawn = [], yPos = 30 \<rparr>"

section \<open>The score aggregation of PaperScorer\<close>

subsection \<open>The dominant category\<close>

lemma category_index_position:
  "category_index c < length (Object_keys sc) \<and> Object_keys sc ! category_index c = c"
  by (cases c) (simp_all add: Object_keys_def)

lemma dominantCategory_unfold:
  "dominantCategory sc =
     Some (foldl (\<lambda>a b. if sc a > sc b then a else b) Remembering
             [Understanding, Applying, Analyzing, Evaluating, Creating])"
  by (simp add: dominantCategory_def Object_keys_def)

text \<open>
  C2, as stated: for the vector with Remembering 5, Understanding 5 and all others 0 the
  dominant category is Remembering. The reducer keeps its accumulator only on a strictly
  greater score, so on a tie it moves on to the later category: the result here is not
  Remembering.
\<close>

theorem dominantCategory_tie_counterexample:
  "dominantCategory (BloomWeights_lit 5 5 0 0 0 0) \<noteq> Some Remembering"
  by (simp add: dominantCategory_unfold)

text \<open>
  C2, amended: for every score vector \<open>dominantCategory\<close> returns a category that holds
  the maximal value, and when two or more categories are tied at the maximum it returns
  the latest tied category in the order Remembering, Understanding, Applying, Analyzing,
  Evaluating, Creating; for the vector with Remembering 5, Understanding 5 and all others
  0 it returns Understanding.
\<close>

theorem dominantCategory_latest_maximum:
  "(\<exists>c. dominantCategory sc = Some c \<and> (\<forall>d. sc d \<le> sc c) \<and>
        (\<forall>d. sc d = sc c \<longrightarrow> category_index d \<le> category_index c)) \<and>
   dominantCategory (BloomWeights_lit 5 5 0 0 0 0) = Some Understanding"
proof -
  define c where
    "c = foldl (\<lambda>a b. if sc a > sc b then a else b) Remembering
           [Understanding, Applying, Analyzing, Evaluating, Creating]"
  have res: "dominantCategory sc = Some c"
    by (simp add: dominantCategory_unfold c_def)
  have maximal: "sc d \<le> sc c" for d
    unfolding c_def by (cases d) (auto split: if_splits)
  have latest: "category_index d \<le> category_index c" if "sc d = sc c" for d
    using that unfolding c_def by (cases d) (auto split: if_splits)
  have tie: "dominantCategory (BloomWeights_lit 5 5 0 0 0 0) = Some Understanding"
    by (simp add: dominantCategory_unfold)
  from res maximal latest tie show ?thesis by blast
qed

theorem dominantCategory_latest_maximum_witness:
  "BloomWeights_lit 2 7 7 1 0 3 Understanding = BloomWeights_lit 2 7 7 1 0 3 Applying \<and>
   dominantCategory (BloomWeights_lit 2 7 7 1 0 3) = Some Applying \<and>
   category_index Understanding \<le> category_index Applying"
proof -
  let ?w = "BloomWeights_lit 2 7 7 1 0 3"
  from dominantCategory_latest_maximum [of ?w]
  obtain c where c: "dominantCategory ?w = Some c"
    and latest: "\<forall>d. ?w d = ?w c \<longrightarrow> category_index d \<le> category_index c"
    by blast
  have val: "dominantCategory ?w = Some Applying"
    by (simp add: dominantCategory_unfold)
  with c have "c = Applying" by simp
  with latest have "category_index Understanding \<le> category_index Applying"
    by simp
  with val show ?thesis by simp
qed

subsection \<open>Totals\<close>







subsection \<open>Percentages\<close>

lemma StackedBar_totalScore_sum6: "StackedBar_totalScore scores = sum6 scores"
  by (simp add: StackedBar_totalScore_def Object_values_def Object_keys_def sum6_def)

lemma scores_nonneg_zero:
  assumes "scores_nonneg sc" and "sum6 sc = 0"
  shows "sc c = 0"
  using assms unfolding scores_nonneg_def sum6_def by (cases c) auto

text \<open>
  C9: the percentage computation never divides by zero, whatever the vector and the
  basis passed in: it always yields a finite number. When the basis passed in is 0 (none
  supplied), the basis is the vector's own sum, or 1 when that sum is 0. For a score
  vector (six non-negative entries) whose entries sum to 0, every category's percentage
  is 0, under the default basis and under the basis the two callers compute.
\<close>

theorem percentage_division_safe:
  "(\<exists>p. percentage scores maxScore c = Some p) \<and>
   StackedBar_maxScore scores 0 = (if sum6 scores = 0 then 1 else sum6 scores) \<and>
   StackedBar_maxScore scores 0 \<noteq> 0 \<and>
   (scores_nonneg scores \<and> sum6 scores = 0 \<longrightarrow>
      percentage scores 0 c = Some 0 \<and>
      percentage scores (caller_maxScore scores) c = Some 0)"
proof (intro conjI impI)
  show "\<exists>p. percentage scores maxScore c = Some p"
    by (simp add: percentage_def Let_def js_div_def)
  show basis: "StackedBar_maxScore scores 0 = (if sum6 scores = 0 then 1 else sum6 scores)"
    by (simp add: StackedBar_maxScore_def num_or_def StackedBar_totalScore_sum6)
  then show "StackedBar_maxScore scores 0 \<noteq> 0" by simp
next
  assume a: "scores_nonneg scores \<and> sum6 scores = 0"
  then have z: "scores c = 0" using scores_nonneg_zero by blast
  show "percentage scores 0 c = Some 0"
    using a z
    by (simp add: percentage_def Let_def js_div_def StackedBar_maxScore_def num_or_def
        StackedBar_totalScore_sum6)
  have "caller_maxScore scores = 1"
    using a StackedBar_totalScore_sum6 [of scores]
    by (simp add: caller_maxScore_def num_or_def StackedBar_totalScore_def)
  then show "percentage scores (caller_maxScore scores) c = Some 0"
    using z by (simp add: percentage_def Let_def js_div_def StackedBar_maxScore_def)
qed

theorem percentage_division_safe_witness:
  "scores_nonneg (BloomWeights_lit 0 0 0 0 0 0) \<and> sum6 (BloomWeights_lit 0 0 0 0 0 0) = 0 \<and>
   percentage (BloomWeights_lit 0 0 0 0 0 0) 0 Analyzing = Some 0 \<and>
   StackedBar_maxScore (BloomWeights_lit 0 0 0 0 0 0) 0 = 1"
proof -
  have h: "scores_nonneg (BloomWeights_lit 0 0 0 0 0 0) \<and> sum6 (BloomWeights_lit 0 0 0 0 0 0) = 0"
    by (simp add: scores_nonneg_def sum6_def)
  with percentage_division_safe [of "BloomWeights_lit 0 0 0 0 0 0" 0 Analyzing]
  show ?thesis by simp
qed

text \<open>
  Non-negativity matters for the last part: with a negative entry the sum can be 0 while
  the entries are not, and the basis 1 then scales them by 100.
\<close>

lemma percentage_negative_entries:
  "sum6 (BloomWeights_lit 5 (-5) 0 0 0 0) = 0 \<and>
   percentage (BloomWeights_lit 5 (-5) 0 0 0 0) 0 Remembering = Some 500"
  by (simp add: sum6_def percentage_def Let_def js_div_def StackedBar_maxScore_def num_or_def
      StackedBar_totalScore_sum6)

section \<open>The workflow of QuestionGenerator\<close>

subsection \<open>Sums and the handler's two outcomes\<close>

lemma totalNumQuestions_sum:
  "totalNumQuestions n = nq_text n + nq_trueFalse n + nq_mcq n"
  by (simp add: totalNumQuestions_def)

lemma totalNumQuestions_pos:
  "counts_nonneg n \<Longrightarrow> totalNumQuestions n \<noteq> 0 \<Longrightarrow> 0 < totalNumQuestions n"
  unfolding counts_nonneg_def totalNumQuestions_sum by linarith

lemma totalWeight_sum6: "totalWeight w = sum6 w"
  by (simp add: totalWeight_def Object_values_def Object_keys_def sum6_def)

lemma handleGenerate_failure:
  assumes "uploadedFile s = Some f" and "totalNumQuestions (numQuestions s) \<noteq> 0"
    and "generate_try env f s = (Inl e, reqs)"
  shows "handleGenerate env s =
     (s\<lparr> isLoading := False,
         error := Some (lit ''Failed to generate questions: '' @ errorMessage e),
         generatedQuestions := [] \<rparr>, reqs)"
  using assms by (simp add: handleGenerate_def Let_def)

lemma handleGenerate_success:
  assumes "uploadedFile s = Some f" and "totalNumQuestions (numQuestions s) \<noteq> 0"
    and "generate_try env f s = (Inr qs, reqs)"
  shows "handleGenerate env s =
     (s\<lparr> isLoading := False, error := None, generatedQuestions := qs, step := 4 \<rparr>, reqs)"
  using assms by (simp add: handleGenerate_def Let_def)

lemma generate_try_success:
  assumes "fileToBase64 env f = Inr b" and "fetch env (payload_of f b s) = Inr r"
    and "ok r" and "response_json r = Inr data"
  shows "generate_try env f s = (Inr (mapResponse data), [payload_of f b s])"
  using assms by (simp add: generate_try_def Let_def)



text \<open>
  What makes the \<^verbatim>\<open>try\<close> block throw: a rejected encoding (no request is sent), a
  rejected \<^verbatim>\<open>fetch\<close>, a response that is not ok, or a body that does not parse.
\<close>

lemma generate_try_failures:
  "(fileToBase64 env f = Inl e \<longrightarrow> generate_try env f s = (Inl e, [])) \<and>
   (fileToBase64 env f = Inr b \<and> fetch env (payload_of f b s) = Inl e \<longrightarrow>
      generate_try env f s = (Inl e, [payload_of f b s])) \<and>
   (fileToBase64 env f = Inr b \<and> fetch env (payload_of f b s) = Inr r \<and> \<not> ok r \<longrightarrow>
      (\<exists>e'. generate_try env f s = (Inl e', [payload_of f b s]))) \<and>
   (fileToBase64 env f = Inr b \<and> fetch env (payload_of f b s) = Inr r \<and> ok r \<and>
      response_json r = Inl e \<longrightarrow> generate_try env f s = (Inl e, [payload_of f b s]))"
  by (auto simp add: generate_try_def Let_def split: sum.splits)

lemma env_network_down_try:
  "generate_try env_network_down f s =
     (Inl (ThrownError (lit ''Failed to fetch'')), [payload_of f (lit ''JVBERi0='') s])"
  by (simp add: generate_try_def env_network_down_def Let_def)

lemma env_responding_try:
  "generate_try (env_responding data) f s =
     (Inr (mapResponse data), [payload_of f (lit ''JVBERi0='') s])"
  by (simp add: generate_try_def env_responding_def Let_def)

lemma review_state_ready:
  "uploadedFile review_state = Some file_example \<and>
   totalNumQuestions (numQuestions review_state) = 5 \<and> step review_state = 4 \<and>
   \<not> isLoading review_state \<and> generatedQuestions review_state = [question_example]"
  by (simp add: review_state_def initialState_def totalNumQuestions_sum)

lemma weights_state_ready:
  "uploadedFile weights_state = Some file_example \<and>
   totalNumQuestions (numQuestions weights_state) = 5 \<and> step weights_state = 3 \<and>
   \<not> isLoading weights_state \<and> totalWeight (bloomWeights weights_state) = 100"
  by (simp add: weights_state_def initialState_def totalNumQuestions_sum totalWeight_sum6 sum6_def)

subsection \<open>The response mapper\<close>

lemma mapItem_recognised: "mapItem x i \<noteq> None \<longleftrightarrow> recognised x"
  by (cases x) simp_all

lemma mapItem_Some:
  "mapItem x i = Some q \<Longrightarrow> qid q = i \<and> status q = pending \<and> recognised x"
  by (cases x) auto

lemma mapResponse_snoc:
  "mapResponse (data @ [x]) =
     mapResponse data @ (case mapItem x (length data) of None \<Rightarrow> [] | Some q \<Rightarrow> [q])"
  by (simp add: mapResponse_def split: option.split)

lemma mapResponse_Nil: "mapResponse [] = []"
  by (simp add: mapResponse_def)

lemma mapResponse_ids:
  "map qid (mapResponse data) = filter (\<lambda>i. recognised (data ! i)) [0..<length data]"
proof (induction data rule: rev_induct)
  case Nil
  show ?case by (simp add: mapResponse_Nil)
next
  case (snoc x xs)
  have old: "filter (\<lambda>i. recognised ((xs @ [x]) ! i)) [0..<length xs] =
             filter (\<lambda>i. recognised (xs ! i)) [0..<length xs]"
    by (rule filter_cong) (simp_all add: nth_append)
  show ?case
  proof (cases "mapItem x (length xs)")
    case None
    then have "\<not> recognised x" using mapItem_recognised by blast
    with None snoc old show ?thesis by (simp add: mapResponse_snoc)
  next
    case (Some q)
    then have "recognised x" and "qid q = length xs" using mapItem_Some by blast+
    with Some snoc old show ?thesis by (simp add: mapResponse_snoc)
  qed
qed

lemma mapResponse_members:
  "q \<in> set (mapResponse data) \<Longrightarrow>
     qid q < length data \<and> mapItem (data ! qid q) (qid q) = Some q"
proof (induction data rule: rev_induct)
  case Nil
  then show ?case by (simp add: mapResponse_Nil)
next
  case (snoc x xs)
  from snoc.prems consider (old) "q \<in> set (mapResponse xs)"
    | (new) "mapItem x (length xs) = Some q"
    by (auto simp add: mapResponse_snoc split: option.splits)
  then show ?case
  proof cases
    case old
    with snoc.IH show ?thesis by (simp add: nth_append)
  next
    case new
    then have "qid q = length xs" using mapItem_Some by blast
    with new show ?thesis by simp
  qed
qed

lemma mapResponse_pending: "q \<in> set (mapResponse data) \<Longrightarrow> status q = pending"
  using mapResponse_members mapItem_Some by blast

lemma mapResponse_length: "length (mapResponse data) = length (filter recognised data)"
proof (induction data rule: rev_induct)
  case Nil
  show ?case by (simp add: mapResponse_Nil)
next
  case (snoc x xs)
  then show ?case
    using mapItem_recognised [of x "length xs"]
    by (auto simp add: mapResponse_snoc split: option.splits)
qed

lemma mapResponse_all_recognised:
  assumes "\<forall>x\<in>set data. recognised x"
  shows "map qid (mapResponse data) = [0..<length (mapResponse data)]"
proof -
  have "filter (\<lambda>i. recognised (data ! i)) [0..<length data] = [0..<length data]"
    using assms by (simp add: filter_id_conv)
  moreover have "filter recognised data = data"
    using assms by (simp add: filter_id_conv)
  ultimately show ?thesis by (simp add: mapResponse_ids mapResponse_length)
qed

text \<open>
  C4: for every sequence of response items the mapper returns a list (it has no failing
  outcome); the ids of the emitted questions are, in order, the indices of the original
  sequence at which a recognised item stands, and each emitted question is the image of
  the item at its id; so every unrecognised item is dropped and as many questions are
  emitted as there are recognised items. For a recognised item, an unknown-tag item and
  a recognised item the output has length 2 (with ids 0 and 2).
\<close>

theorem mapResponse_drops_unknown_tags:
  "map qid (mapResponse data) = filter (\<lambda>i. recognised (data ! i)) [0..<length data] \<and>
   (\<forall>q\<in>set (mapResponse data).
      qid q < length data \<and> mapItem (data ! qid q) (qid q) = Some q) \<and>
   length (mapResponse data) = length (filter recognised data) \<and>
   (recognised a \<and> \<not> recognised u \<and> recognised b \<longrightarrow>
      length (mapResponse [a, u, b]) = 2 \<and> map qid (mapResponse [a, u, b]) = [0, 2])"
proof (intro conjI ballI impI)
  show "map qid (mapResponse data) = filter (\<lambda>i. recognised (data ! i)) [0..<length data]"
    by (rule mapResponse_ids)
  show "length (mapResponse data) = length (filter recognised data)"
    by (rule mapResponse_length)
next
  fix q assume q: "q \<in> set (mapResponse data)"
  from mapResponse_members [OF q]
  show "qid q < length data" and "mapItem (data ! qid q) (qid q) = Some q" by simp_all
next
  assume h: "recognised a \<and> \<not> recognised u \<and> recognised b"
  then show "length (mapResponse [a, u, b]) = 2"
    by (simp add: mapResponse_length)
  from h show "map qid (mapResponse [a, u, b]) = [0, 2]"
    by (simp add: mapResponse_ids upt_rec)
qed

theorem mapResponse_drops_unknown_tags_witness:
  "recognised (Api_text (lit ''Define osmosis.'')) \<and>
   \<not> recognised (Api_other (lit ''unknown'')) \<and>
   recognised (Api_TrueFalse (lit ''Water is wet.'') True) \<and>
   length (mapResponse [Api_text (lit ''Define osmosis.''), Api_other (lit ''unknown''),
      Api_TrueFalse (lit ''Water is wet.'') True]) = 2 \<and>
   map qid (mapResponse [Api_text (lit ''Define osmosis.''), Api_other (lit ''unknown''),
      Api_TrueFalse (lit ''Water is wet.'') True]) = [0, 2]"
proof -
  have h: "recognised (Api_text (lit ''Define osmosis.'')) \<and>
     \<not> recognised (Api_other (lit ''unknown'')) \<and>
     recognised (Api_TrueFalse (lit ''Water is wet.'') True)" by simp
  with mapResponse_drops_unknown_tags
    [where a = "Api_text (lit ''Define osmosis.'')" and u = "Api_other (lit ''unknown'')"
       and b = "Api_TrueFalse (lit ''Water is wet.'') True" and data = "[]"]
  show ?thesis by blast
qed

subsection \<open>A failed request\<close>

text \<open>
  C1, as stated: after a failed request the question set held before the call is still
  held. The handler empties the set when it starts the request, before the outcome is
  known: on the review step with one question held, a network failure leaves no question.
\<close>

theorem handleGenerate_failure_counterexample:
  "uploadedFile review_state \<noteq> None \<and>
   0 < totalNumQuestions (numQuestions review_state) \<and>
   fst (generate_try env_network_down file_example review_state) =
     Inl (ThrownError (lit ''Failed to fetch'')) \<and>
   generatedQuestions (fst (handleGenerate env_network_down review_state)) \<noteq>
     generatedQuestions review_state"
  using review_state_ready
  by (simp add: handleGenerate_def env_network_down_try Let_def)

text \<open>
  C1, amended: if the Generate request fails (the encoding or the \<^verbatim>\<open>fetch\<close> rejects, the
  response is not ok, or its body does not parse), then for every prior state with a file
  present and a non-zero total requested count, \<open>handleGenerate\<close> ends with the loading
  flag off and the error set to \<open>"Failed to generate questions: "\<close> followed by the
  failure's message, the step and every other cell unchanged, and the generated-question
  set empty (it was cleared when the request started), whatever it held before.
\<close>

theorem handleGenerate_failure_clears_questions:
  assumes "uploadedFile s = Some f" and "totalNumQuestions (numQuestions s) \<noteq> 0"
    and "fst (generate_try env f s) = Inl e"
  shows "fst (handleGenerate env s) =
           s\<lparr> isLoading := False,
              error := Some (lit ''Failed to generate questions: '' @ errorMessage e),
              generatedQuestions := [] \<rparr> \<and>
         step (fst (handleGenerate env s)) = step s \<and>
         uploadedFile (fst (handleGenerate env s)) = uploadedFile s \<and>
         \<not> isLoading (fst (handleGenerate env s)) \<and>
         error (fst (handleGenerate env s)) =
           Some (lit ''Failed to generate questions: '' @ errorMessage e) \<and>
         generatedQuestions (fst (handleGenerate env s)) = []"
proof -
  obtain reqs where "generate_try env f s = (Inl e, reqs)"
    using assms(3) by (cases "generate_try env f s") simp
  from handleGenerate_failure [OF assms(1,2) this] show ?thesis by simp
qed

theorem handleGenerate_failure_clears_questions_witness:
  "uploadedFile review_state = Some file_example \<and>
   totalNumQuestions (numQuestions review_state) \<noteq> 0 \<and>
   fst (generate_try env_network_down file_example review_state) =
     Inl (ThrownError (lit ''Failed to fetch'')) \<and>
   step (fst (handleGenerate env_network_down review_state)) = 4 \<and>
   error (fst (handleGenerate env_network_down review_state)) =
     Some (lit ''Failed to generate questions: Failed to fetch'') \<and>
   generatedQuestions (fst (handleGenerate env_network_down review_state)) = []"
proof -
  have f: "uploadedFile review_state = Some file_example"
    and n: "totalNumQuestions (numQuestions review_state) \<noteq> 0"
    and st: "step review_state = 4"
    using review_state_ready by simp_all
  have t: "fst (generate_try env_network_down file_example review_state) =
     Inl (ThrownError (lit ''Failed to fetch''))"
    by (simp add: env_network_down_try)
  have m: "lit ''Failed to generate questions: '' @ errorMessage (ThrownError (lit ''Failed to fetch''))
     = lit ''Failed to generate questions: Failed to fetch''"
    by (simp add: lit_def)
  from handleGenerate_failure_clears_questions [OF f n t] f n t st m
  show ?thesis by simp
qed

subsection \<open>A successful response\<close>

text \<open>
  C3, as stated: the resulting questions carry the ids \<open>0..n-1\<close>, \<open>n\<close> their number. The
  ids are positions in the response, taken before the unknown tags are filtered out: a
  response with an unknown tag in front of one text item yields one question with id 1.
\<close>

theorem handleGenerate_ids_counterexample:
  "generatedQuestions (fst (handleGenerate (env_responding response_with_gap) weights_state)) =
     mapResponse response_with_gap \<and>
   length (mapResponse response_with_gap) = 1 \<and>
   map qid (mapResponse response_with_gap) = [1] \<and>
   map qid (mapResponse response_with_gap) \<noteq> [0..<length (mapResponse response_with_gap)]"
proof -
  have "mapResponse response_with_gap =
     [\<lparr> qid = 1, qtext = lit ''Define osmosis.'', status = pending, question_type = QT_text,
        options = None, answer = None \<rparr>]"
    by (simp add: mapResponse_def response_with_gap_def upt_rec)
  then show ?thesis
    using weights_state_ready
    by (simp add: handleGenerate_def env_responding_try Let_def)
qed

text \<open>
  C3, amended: on a successful Generate response (file present, non-zero total requested
  count, ok response with a parsed array), \<open>handleGenerate\<close> replaces the whole question
  set by the mapped response, forces the step to 4, and ends with the loading flag off
  and no error; every question has status pending; the ids are, in order, the positions
  in the response array of the recognised items, and they are exactly \<open>0..n-1\<close> (\<open>n\<close> the
  number of resulting questions) when every item of the response has a recognised tag.
\<close>

theorem handleGenerate_success_replaces_questions:
  assumes "uploadedFile s = Some f" and "totalNumQuestions (numQuestions s) \<noteq> 0"
    and "fileToBase64 env f = Inr b" and "fetch env (payload_of f b s) = Inr r"
    and "ok r" and "response_json r = Inr data"
  shows "fst (handleGenerate env s) =
           s\<lparr> isLoading := False, error := None,
              generatedQuestions := mapResponse data, step := 4 \<rparr> \<and>
         (\<forall>q\<in>set (mapResponse data). status q = pending) \<and>
         map qid (mapResponse data) = filter (\<lambda>i. recognised (data ! i)) [0..<length data] \<and>
         ((\<forall>x\<in>set data. recognised x) \<longrightarrow>
            map qid (mapResponse data) = [0..<length (mapResponse data)])"
proof (intro conjI ballI impI)
  from generate_try_success [OF assms(3-6)]
  have "generate_try env f s = (Inr (mapResponse data), [payload_of f b s])" .
  from handleGenerate_success [OF assms(1,2) this]
  show "fst (handleGenerate env s) =
           s\<lparr> isLoading := False, error := None,
              generatedQuestions := mapResponse data, step := 4 \<rparr>" by simp
next
  fix q assume "q \<in> set (mapResponse data)"
  then show "status q = pending" by (rule mapResponse_pending)
next
  show "map qid (mapResponse data) = filter (\<lambda>i. recognised (data ! i)) [0..<length data]"
    by (rule mapResponse_ids)
next
  assume "\<forall>x\<in>set data. recognised x"
  then show "map qid (mapResponse data) = [0..<length (mapResponse data)]"
    by (rule mapResponse_all_recognised)
qed

theorem handleGenerate_success_replaces_questions_witness:
  "uploadedFile review_state = Some file_example \<and>
   totalNumQuestions (numQuestions review_state) \<noteq> 0 \<and>
   step (fst (handleGenerate (env_responding response_all_known) review_state)) = 4 \<and>
   error (fst (handleGenerate (env_responding response_all_known) review_state)) = None \<and>
   \<not> isLoading (fst (handleGenerate (env_responding response_all_known) review_state)) \<and>
   map qid (generatedQuestions
      (fst (handleGenerate (env_responding response_all_known) review_state))) = [0, 1] \<and>
   map status (generatedQuestions
      (fst (handleGenerate (env_responding response_all_known) review_state))) = [pending, pending]"
proof -
  let ?env = "env_responding response_all_known"
  let ?r = "\<lparr> ok = True, statusText = lit ''OK'', response_text = Inr [],
              response_json = Inr response_all_known \<rparr>"
  have f: "uploadedFile review_state = Some file_example"
    and n: "totalNumQuestions (numQuestions review_state) \<noteq> 0"
    using review_state_ready by simp_all
  have e: "fileToBase64 ?env file_example = Inr (lit ''JVBERi0='')"
    and r: "fetch ?env (payload_of file_example (lit ''JVBERi0='') review_state) = Inr ?r"
    and k: "ok ?r" and j: "response_json ?r = Inr response_all_known"
    by (simp_all add: env_responding_def)
  have known: "\<forall>x\<in>set response_all_known. recognised x"
    by (simp add: response_all_known_def)
  have len: "length (mapResponse response_all_known) = 2"
    by (simp add: mapResponse_length response_all_known_def)
  from handleGenerate_success_replaces_questions [OF f n e r k j] known
  have s': "fst (handleGenerate ?env review_state) =
      review_state\<lparr> isLoading := False, error := None,
         generatedQuestions := mapResponse response_all_known, step := 4 \<rparr>"
    and p: "\<forall>q\<in>set (mapResponse response_all_known). status q = pending"
    and ids: "map qid (mapResponse response_all_known) =
        [0..<length (mapResponse response_all_known)]"
    by blast+
  have ids': "map qid (mapResponse response_all_known) = [0, 1]"
    unfolding ids len by (simp add: upt_rec)
  have st: "map status (mapResponse response_all_known) = [pending, pending]"
    by (simp add: mapResponse_def response_all_known_def upt_rec)
  show ?thesis using f n ids' st by (simp add: s')
qed

subsection \<open>The weight total\<close>




subsection \<open>Moving forward\<close>

text \<open>A file reaches the state only through the uploader's checks.\<close>

lemma selectFile_validated:
  "uploadedFile (selectFile selectedFile s) = Some f \<Longrightarrow>
     selectedFile = Some f \<and> file_type f = lit ''application/pdf'' \<and>
     file_size f \<le> MAX_SIZE_BYTES"
  by (auto simp add: selectFile_def handleFileChange_def split: option.splits if_splits)

lemma selectFile_example:
  "selectFile (Some file_example) initialState =
     initialState \<lparr> uploadedFile := Some file_example \<rparr>"
  by (simp add: selectFile_def handleFileChange_def file_example_def MAX_SIZE_BYTES_def)

text \<open>
  C10: the forward control moves the step from \<open>s\<close> to \<open>s + 1\<close> only when \<open>s < 4\<close> and the
  guard of the current step holds: on step 1 a file is present, on step 2 the total
  requested count is not 0 (hence positive, for counts that are not negative). On steps 1
  and 2 with the guard holding it does move. On step 1 with no file, and on step 2 with a
  total requested count of 0, it changes nothing.
\<close>

theorem advance_guarded:
  "(step (fst (advance env s)) = step s + 1 \<longrightarrow>
      step s < 4 \<and>
      (step s = 1 \<longrightarrow> uploadedFile s \<noteq> None) \<and>
      (step s = 2 \<longrightarrow> totalNumQuestions (numQuestions s) \<noteq> 0 \<and>
         (counts_nonneg (numQuestions s) \<longrightarrow> 0 < totalNumQuestions (numQuestions s)))) \<and>
   (step s < 3 \<and> \<not> next_disabled s \<longrightarrow> advance env s = (s\<lparr> step := step s + 1 \<rparr>, [])) \<and>
   (step s = 1 \<and> uploadedFile s = None \<longrightarrow> advance env s = (s, [])) \<and>
   (step s = 2 \<and> totalNumQuestions (numQuestions s) = 0 \<longrightarrow> advance env s = (s, []))"
proof (intro conjI impI)
  assume moved: "step (fst (advance env s)) = step s + 1"
  show "step s < 4"
  proof (rule ccontr)
    assume "\<not> step s < 4"
    then have "advance env s = (s, [])" by (simp add: advance_def)
    with moved show False by simp
  qed
  { assume s1: "step s = 1"
    show "uploadedFile s \<noteq> None"
    proof
      assume "uploadedFile s = None"
      with s1 have "advance env s = (s, [])"
        by (simp add: advance_def clickNext_def next_disabled_def)
      with moved show False by simp
    qed }
  { assume s2: "step s = 2"
    show nz: "totalNumQuestions (numQuestions s) \<noteq> 0"
    proof
      assume "totalNumQuestions (numQuestions s) = 0"
      with s2 have "advance env s = (s, [])"
        by (simp add: advance_def clickNext_def next_disabled_def)
      with moved show False by simp
    qed
    { assume "counts_nonneg (numQuestions s)"
      with nz show "0 < totalNumQuestions (numQuestions s)"
        by (rule totalNumQuestions_pos [rotated]) } }
next
  assume "step s < 3 \<and> \<not> next_disabled s"
  then show "advance env s = (s\<lparr> step := step s + 1 \<rparr>, [])"
    by (simp add: advance_def clickNext_def)
next
  assume "step s = 1 \<and> uploadedFile s = None"
  then show "advance env s = (s, [])"
    by (simp add: advance_def clickNext_def next_disabled_def)
next
  assume "step s = 2 \<and> totalNumQuestions (numQuestions s) = 0"
  then show "advance env s = (s, [])"
    by (simp add: advance_def clickNext_def next_disabled_def)
qed

theorem advance_guarded_witness:
  "step (fst (advance env_network_down (initialState \<lparr> uploadedFile := Some file_example \<rparr>))) =
     step (initialState \<lparr> uploadedFile := Some file_example \<rparr>) + 1 \<and>
   step (initialState \<lparr> uploadedFile := Some file_example \<rparr>) = 1 \<and>
   uploadedFile (initialState \<lparr> uploadedFile := Some file_example \<rparr>) \<noteq> None \<and>
   step initialState = 1 \<and> uploadedFile initialState = None \<and>
   advance env_network_down initialState = (initialState, []) \<and>
   step configure_state_zero = 2 \<and>
   totalNumQuestions (numQuestions configure_state_zero) = 0 \<and>
   advance env_network_down configure_state_zero = (configure_state_zero, [])"
proof -
  let ?s = "initialState \<lparr> uploadedFile := Some file_example \<rparr>"
  have a: "step ?s < 3 \<and> \<not> next_disabled ?s"
    by (simp add: initialState_def next_disabled_def)
  have b: "step initialState = 1 \<and> uploadedFile initialState = None"
    by (simp add: initialState_def)
  have c: "step configure_state_zero = 2 \<and>
     totalNumQuestions (numQuestions configure_state_zero) = 0"
    by (simp add: configure_state_zero_def initialState_def totalNumQuestions_sum)
  from advance_guarded [of env_network_down ?s] a
  have 1: "advance env_network_down ?s = (?s\<lparr> step := step ?s + 1 \<rparr>, [])" by blast
  from advance_guarded [of env_network_down initialState] b
  have 2: "advance env_network_down initialState = (initialState, [])" by blast
  from advance_guarded [of env_network_down configure_state_zero] c
  have 3: "advance env_network_down configure_state_zero = (configure_state_zero, [])" by blast
  have 4: "step ?s = 1" by (simp add: initialState_def)
  from b c 1 2 3 4 show ?thesis by simp
qed

section \<open>The two exports\<close>

subsection \<open>The answer label\<close>

lemma findIndex_from_takeWhile:
  "findIndex_from k p xs =
     (if \<exists>x\<in>set xs. p x then k + int (length (takeWhile (\<lambda>x. \<not> p x) xs)) else - 1)"
  by (induction xs arbitrary: k) auto

lemma findIndex_string:
  "findIndex (\<lambda>opt. opt = a) opts =
     (if a \<in> set opts then int (first_index a opts) else - 1)"
  by (auto simp add: findIndex_def findIndex_from_takeWhile first_index_def)


lemma pdf_answerLabel_string: "pdf_answerLabel opts (AnsString a) = spec_answerLabel opts a"
  by (simp add: pdf_answerLabel_def spec_answerLabel_def findIndex_string Let_def nat_add_distrib)

lemma mcq_example_label:
  "spec_answerLabel [lit ''Paris'', lit ''Lyon'', lit ''Nice''] (lit ''Lyon'') = lit ''b) Lyon''"
  by (simp add: spec_answerLabel_def first_index_def fromCharCode_def lit_def)

lemma mcq_example_fields:
  "question_type mcq_example = QT_MCQ"
  "options mcq_example = Some [lit ''Paris'', lit ''Lyon'', lit ''Nice'']"
  "answer mcq_example = Some (AnsString (lit ''Lyon''))"
  "qtext mcq_example = lit ''Capital of France?''"
  by (simp_all add: mcq_example_def)



text \<open>The two exported documents for that question, accepted alone.\<close>

lemma export_example_txt:
  "handleExportTXT export_state =
     Some (lit ''1. Capital of France?\<newline>   a) Paris\<newline>   b) Lyon\<newline>   c) Nice\<newline>   Answer: b) Lyon'')"
  by (simp add: handleExportTXT_def export_state_def initialState_def acceptedQuestions_def
      txt_question_def mcq_example_def Let_def txt_answerLabel_def findIndex_def
      fromCharCode_def lit_def upt_rec)

lemma pdf_block_one_line:
  "yPos st + h \<le> 282 \<Longrightarrow>
   pdf_block a4_one_line txt w x h st =
     st\<lparr> drawn := drawn st @ [(pages st, [txt], x, yPos st)], yPos := yPos st + h \<rparr>"
  by (simp add: pdf_block_def a4_one_line_def checkPageBreak_def drawText_def margin_def Let_def)

lemma pdf_question_example:
  "pdf_question a4_one_line
     \<lparr> pages = 1, font = Font ''helvetica'' ''bold'' 18,
       drawn = [(1, [lit ''BloomSphere Generated Questions''], 105, 15)], yPos = 30 \<rparr>
     (mcq_example, 0) =
   \<lparr> pages = 1, font = Font ''helvetica'' ''bold'' 11,
            drawn = [(1, [lit ''BloomSphere Generated Questions''], 105, 15),
                     (1, [lit ''1. Capital of France?''], 15, 30),
                     (1, [lit ''a) Paris''], 23, 39),
                     (1, [lit ''b) Lyon''], 23, 46),
                     (1, [lit ''c) Nice''], 23, 53),
                     (1, [lit ''Answer: b) Lyon''], 19, 63)],
            yPos = 79 \<rparr>"
proof -
  have l: "pdf_answerString mcq_example (AnsString (lit ''Lyon'')) = lit ''Answer: b) Lyon''"
    by (simp add: pdf_answerString_def mcq_example_fields pdf_answerLabel_string
        mcq_example_label)
       (simp add: lit_def)
  have ne: "lit ''Answer: b) Lyon'' \<noteq> []" by (simp add: lit_def)
  have w: "pageWidth a4_one_line = 210" by (simp add: a4_one_line_def)
  show ?thesis
    unfolding pdf_question_def
    by (simp add: mcq_example_fields l ne w pdf_block_one_line setFont_def setFontSize_def
        margin_def upt_rec)
       (simp add: lit_def fromCharCode_def)
qed

lemma export_example_pdf:
  "handleExportPDF a4_one_line (Font ''helvetica'' ''normal'' 16) export_state =
     Some \<lparr> pages = 1, font = Font ''helvetica'' ''bold'' 11,
            drawn = [(1, [lit ''BloomSphere Generated Questions''], 105, 15),
                     (1, [lit ''1. Capital of France?''], 15, 30),
                     (1, [lit ''a) Paris''], 23, 39),
                     (1, [lit ''b) Lyon''], 23, 46),
                     (1, [lit ''c) Nice''], 23, 53),
                     (1, [lit ''Answer: b) Lyon''], 19, 63)],
            yPos = 79 \<rparr>"
proof -
  have acc: "acceptedQuestions export_state = [mcq_example]"
    by (simp add: acceptedQuestions_def export_state_def mcq_example_def)
  have h: "pageHeight a4_one_line = 297" and w: "pageWidth a4_one_line = 210"
    by (simp_all add: a4_one_line_def)
  show ?thesis
    unfolding handleExportPDF_def acc
    by (simp add: h w checkPageBreak_def drawText_def setFont_def setFontSize_def margin_def
        pdf_question_example del: One_nat_def)
qed

subsection \<open>The page break\<close>

text \<open>
  C8, as stated: a block that needs more than \<open>H - 2M - cursor\<close> starts a new page. The
  check compares the cursor plus the block with \<open>H - M\<close>: on an A4 page (height 297,
  margin 15), with the cursor at 30 after the title, a block of 34 lines of height 7
  (238) needs more than \<open>297 - 2 * 15 - 30 = 237\<close>, and no page is added.
\<close>

theorem checkPageBreak_counterexample:
  "(238::real) > 297 - 2 * margin - yPos page_after_title \<and>
   checkPageBreak margin 297 238 page_after_title = page_after_title \<and>
   yPos (checkPageBreak margin 297 238 page_after_title) \<noteq> margin"
  by (simp add: checkPageBreak_def margin_def page_after_title_def)

text \<open>
  C8, amended: for every page height \<open>H\<close>, margin \<open>M\<close>, cursor position and block extent:
  if the block needs more space than \<open>H - M - cursor\<close> (the cursor plus the block would
  pass the bottom margin), a new page is started before the block is written and the
  cursor is reset to exactly \<open>M\<close>; otherwise no page break occurs and the check changes
  nothing, the cursor included.
\<close>

theorem checkPageBreak_bottom_margin:
  "(neededHeight > H - M - yPos st \<longrightarrow>
      checkPageBreak M H neededHeight st = st\<lparr> pages := pages st + 1, yPos := M \<rparr>) \<and>
   (\<not> neededHeight > H - M - yPos st \<longrightarrow> checkPageBreak M H neededHeight st = st)"
  by (auto simp add: checkPageBreak_def addPage_def)

theorem checkPageBreak_bottom_margin_witness:
  "(259::real) > 297 - margin - yPos page_after_title \<and>
   pages (checkPageBreak margin 297 259 page_after_title) = 2 \<and>
   yPos (checkPageBreak margin 297 259 page_after_title) = margin \<and>
   \<not> (238::real) > 297 - margin - yPos page_after_title \<and>
   checkPageBreak margin 297 238 page_after_title = page_after_title"
proof -
  have a: "(259::real) > 297 - margin - yPos page_after_title"
    and b: "\<not> (238::real) > 297 - margin - yPos page_after_title"
    by (simp_all add: margin_def page_after_title_def)
  from a checkPageBreak_bottom_margin [where neededHeight = 259 and H = 297 and M = margin and st = page_after_title]
  have 1: "checkPageBreak margin 297 259 page_after_title =
    page_after_title\<lparr> pages := pages page_after_title + 1, yPos := margin \<rparr>" by blast
  from b checkPageBreak_bottom_margin [where neededHeight = 238 and H = 297 and M = margin and st = page_after_title]
  have 2: "checkPageBreak margin 297 238 page_after_title = page_after_title" by blast
  have "pages (checkPageBreak margin 297 259 page_after_title) = 2"
    unfolding 1 by (simp add: page_after_title_def)
  moreover have "yPos (checkPageBreak margin 297 259 page_after_title) = margin"
    unfolding 1 by simp
  ultimately show ?thesis using a b 2 by blast
qed

end
